theory Spec2Isabelle
  imports Main
begin

section \<open>VALScoreboardTracker: the batch aggregation pipeline\<close>

text \<open>
  A shallow embedding of \<^verbatim>\<open>VALScoreboardTracker.py\<close> (function \<^verbatim>\<open>main\<close> and its
  helpers) and of \<^verbatim>\<open>config_parser.py\<close>. Images are not modelled: what the run learns
  from a screenshot is what the calls into \<^verbatim>\<open>ocr_library.functions\<close> (imported as
  \<^verbatim>\<open>srf\<close>) return or raise on it, and these outcomes are inputs of the model.
\<close>

subsection \<open>Exceptions and outcomes\<close>

text \<open>
  The exceptions that reach the \<^verbatim>\<open>except Exception\<close> clause of \<^verbatim>\<open>main\<close>. The
  first group is raised by Python itself, the second by \<^verbatim>\<open>configparser\<close> and
  \<^verbatim>\<open>json\<close>, the third by the calls into \<^verbatim>\<open>srf\<close>.
\<close>

datatype py_error =
    IndexError
  | KeyError
  | FileNotFoundError
  | PermissionError
  | ParsingError
  | NoSectionError
  | NoOptionError
  | InterpolationError
  | JSONDecodeError
  | TableNotFoundError
  | OtherError string

text \<open>
  How a run of \<^verbatim>\<open>main\<close> ends: the two early \<^verbatim>\<open>return\<close>s, the last line of the
  \<^verbatim>\<open>try\<close> block, or the \<^verbatim>\<open>except\<close> clause.
\<close>

datatype outcome =
    TesseractFailed
  | NoInput
  | Completed
  | Failed py_error

subsection \<open>Data\<close>

text \<open>
  A row is a Python list of cell texts. In a row returned by \<^verbatim>\<open>srf.read_table_rows\<close>
  the element at index 0 is the team tag and the rest are the player fields.
\<close>

type_synonym row = "string list"

text \<open>
  The scoreboard file: \<open>None\<close> when \<^verbatim>\<open>scoreboard.csv\<close> does not exist, otherwise the
  rows it holds, in file order.
\<close>

type_synonym store = "row list option"

text \<open>The values \<^verbatim>\<open>json.loads\<close> can return.\<close>

datatype json =
    JNull
  | JBool bool
  | JInt int
  | JFloat string
  | JStr string
  | JArr "json list"
  | JObj "(string \<times> json) list"

text \<open>
  The text of an option of \<^verbatim>\<open>config.ini\<close>, told apart by what the two library calls
  of \<^verbatim>\<open>read_config\<close> do with it: \<^verbatim>\<open>config.get\<close> raises on a text with a broken
  \<^verbatim>\<open>%\<close> interpolation; \<^verbatim>\<open>json.loads\<close> raises on a text that is not JSON and returns
  the decoded value otherwise.
\<close>

datatype ini_value =
    BadInterpolation
  | NotJson
  | JsonText json

text \<open>
  The content of \<^verbatim>\<open>config.ini\<close> as \<^verbatim>\<open>ConfigParser.read\<close> sees it: either the parser
  raises on it, or it yields the options of the \<^verbatim>\<open>DEFAULT\<close> section and the named
  sections with their options (option names already lower-cased by the parser).
\<close>

datatype ini =
    Malformed
  | Ini "(string \<times> ini_value) list" "(string \<times> (string \<times> ini_value) list) list"

text \<open>
  What the run observes while it processes one screenshot file: the result of each call
  into \<^verbatim>\<open>srf\<close>, in the order \<^verbatim>\<open>main\<close> makes them, and the date the clock shows.
  \<^verbatim>\<open>find_map_name\<close> receives the configured maps.
\<close>

record shot =
  find_map_name :: "json \<Rightarrow> py_error + string"
  find_tables :: "py_error + unit"
  extract_cell_images_from_table :: "py_error + unit"
  identify_agents :: "py_error + string list"
  read_table_rows :: "py_error + row list"
  current_date :: string

text \<open>
  The files and devices \<^verbatim>\<open>main\<close> touches, all below the base path:
  the files present in \<^verbatim>\<open>Tesseract-OCR\<close> (\<open>None\<close>: no such directory), \<^verbatim>\<open>config.ini\<close>,
  \<^verbatim>\<open>scoreboard.csv\<close>, the entries of \<^verbatim>\<open>screenshots\<close> in listing order (\<open>None\<close>: missing
  or not a directory), whether \<^verbatim>\<open>temp_headshot.png\<close> exists, the file names on which
  \<^verbatim>\<open>os.remove\<close> raises, and the clipboard.
\<close>

record world =
  tesseract_dir :: "string list option"
  config_ini :: "ini option"
  scoreboard_csv :: store
  screenshots_dir :: "string list option"
  temp_headshot :: bool
  undeletable :: "string list"
  clipboard :: store

subsection \<open>Tesseract setup\<close>

definition required_files :: "string list" where
  "required_files = [''tesseract.exe'', ''tessdata/eng.traineddata'']"

fun verify_tesseract_files :: "string list \<Rightarrow> string list \<Rightarrow> bool" where
  "verify_tesseract_files present [] = True"
| "verify_tesseract_files present (file # files) =
     (if file \<notin> set present then False else verify_tesseract_files present files)"

definition setup_tesseract :: "world \<Rightarrow> bool" where
  "setup_tesseract w =
     (case tesseract_dir w of
        None \<Rightarrow> False
      | Some present \<Rightarrow>
          if \<not> verify_tesseract_files present required_files then False else True)"

subsection \<open>\<^verbatim>\<open>config_parser.py\<close>\<close>

text \<open>
  \<^verbatim>\<open>config.read(config_path)\<close>: a missing file is skipped silently and leaves the parser
  empty.
\<close>

definition config_read :: "ini option \<Rightarrow> py_error + ini" where
  "config_read file =
     (case file of
        None \<Rightarrow> Inr (Ini [] [])
      | Some Malformed \<Rightarrow> Inl ParsingError
      | Some (Ini defaults sections) \<Rightarrow> Inr (Ini defaults sections))"

text \<open>
  \<^verbatim>\<open>config.get(section, option)\<close>: the section must exist; the option is looked up in the
  section first and in \<^verbatim>\<open>DEFAULT\<close> second; then the text is interpolated.
\<close>

fun config_get :: "ini \<Rightarrow> string \<Rightarrow> string \<Rightarrow> py_error + ini_value" where
  "config_get Malformed section option = Inl ParsingError"
| "config_get (Ini defaults sections) section option =
     (case map_of sections section of
        None \<Rightarrow> Inl NoSectionError
      | Some options \<Rightarrow>
          (case map_of (options @ defaults) option of
             None \<Rightarrow> Inl NoOptionError
           | Some BadInterpolation \<Rightarrow> Inl InterpolationError
           | Some v \<Rightarrow> Inr v))"

fun json_loads :: "ini_value \<Rightarrow> py_error + json" where
  "json_loads (JsonText j) = Inr j"
| "json_loads _ = Inl JSONDecodeError"

text \<open>The dictionary \<^verbatim>\<open>{'maps': maps}\<close> that \<^verbatim>\<open>read_config\<close> returns.\<close>

type_synonym config_values = "string \<rightharpoonup> json"

definition read_config :: "world \<Rightarrow> py_error + config_values" where
  "read_config w =
     (case config_read (config_ini w) of
        Inl e \<Rightarrow> Inl e
      | Inr config \<Rightarrow>
          (case config_get config ''General'' ''maps'' of
             Inl e \<Rightarrow> Inl e
           | Inr text \<Rightarrow>
               (case json_loads text of
                  Inl e \<Rightarrow> Inl e
                | Inr maps \<Rightarrow> Inr [''maps'' \<mapsto> maps])))"

text \<open>
  The file \<^verbatim>\<open>create_config\<close> writes. Assigning the dictionary to \<^verbatim>\<open>config['General']\<close>
  turns every value into its \<^verbatim>\<open>str\<close> and lower-cases the keys, so the two empty lists
  are written as the text \<^verbatim>\<open>[]\<close>, which is JSON; \<^verbatim>\<open>NOVO\<close> is not.
\<close>

definition default_ini :: ini where
  "default_ini =
     Ini [] [(''General'',
              [(''team'', NotJson),
               (''players'', JsonText (JArr [])),
               (''teamsorting'', JsonText (JBool False)),
               (''maps'', JsonText (JArr []))])]"

definition create_config :: "world \<Rightarrow> (py_error + config_values) \<times> world" where
  "create_config w =
     (let w' = w\<lparr>config_ini := Some default_ini\<rparr>
      in (read_config w', w'))"

subsection \<open>The row transformer (lines 150 to 170 of \<^verbatim>\<open>main\<close>)\<close>

text \<open>Python's \<^verbatim>\<open>xs[i]\<close> for an index that is not negative.\<close>

definition py_index :: "'a list \<Rightarrow> nat \<Rightarrow> py_error + 'a" where
  "py_index xs i = (if i < length xs then Inr (xs ! i) else Inl IndexError)"

text \<open>
  The merge loop \<^verbatim>\<open>for i, row in enumerate(output)\<close>: \<open>i\<close> is the index of the row at
  the head of the rows still to visit, \<open>merged_output\<close> the list built so far.
\<close>

fun merge_loop ::
  "string \<Rightarrow> string \<Rightarrow> string list \<Rightarrow> nat \<Rightarrow> row list \<Rightarrow> row list \<Rightarrow> py_error + row list"
where
  "merge_loop date map_name agents i [] merged_output = Inr merged_output"
| "merge_loop date map_name agents i (row # rest) merged_output =
     (case py_index row 0 of
        Inl e \<Rightarrow> Inl e
      | Inr team \<Rightarrow>
          (let player_data = drop 1 row in
           case py_index agents i of
             Inl e \<Rightarrow> Inl e
           | Inr agent \<Rightarrow>
               (let merged_row = [date, team, map_name, agent] @ player_data
                in merge_loop date map_name agents (Suc i) rest (merged_output @ [merged_row]))))"

text \<open>\<^verbatim>\<open>[row for row in merged_output if row[1] == 'team1']\<close>\<close>

fun filter_team1 :: "row list \<Rightarrow> py_error + row list" where
  "filter_team1 [] = Inr []"
| "filter_team1 (row # rest) =
     (case py_index row 1 of
        Inl e \<Rightarrow> Inl e
      | Inr team \<Rightarrow>
          (case filter_team1 rest of
             Inl e \<Rightarrow> Inl e
           | Inr kept \<Rightarrow> Inr (if team = ''team1'' then row # kept else kept)))"

text \<open>\<^verbatim>\<open>[[row[0], row[2], row[3]] + row[4:] for row in filtered_output]\<close>\<close>

definition clean_row :: "row \<Rightarrow> py_error + row" where
  "clean_row row =
     (case py_index row 0 of
        Inl e \<Rightarrow> Inl e
      | Inr date \<Rightarrow>
          (case py_index row 2 of
             Inl e \<Rightarrow> Inl e
           | Inr map_name \<Rightarrow>
               (case py_index row 3 of
                  Inl e \<Rightarrow> Inl e
                | Inr agent \<Rightarrow> Inr ([date, map_name, agent] @ drop 4 row))))"

fun clean_rows :: "row list \<Rightarrow> py_error + row list" where
  "clean_rows [] = Inr []"
| "clean_rows (row # rest) =
     (case clean_row row of
        Inl e \<Rightarrow> Inl e
      | Inr cleaned \<Rightarrow>
          (case clean_rows rest of
             Inl e \<Rightarrow> Inl e
           | Inr others \<Rightarrow> Inr (cleaned # others)))"

text \<open>
  Merging, filtering and cleaning in sequence: the rows one screenshot hands to
  \<^verbatim>\<open>srf.write_csv\<close>, or the empty list when the screenshot is skipped by \<^verbatim>\<open>continue\<close>.
\<close>

definition transform :: "string \<Rightarrow> string \<Rightarrow> string list \<Rightarrow> row list \<Rightarrow> py_error + row list" where
  "transform date map_name agents output =
     (case merge_loop date map_name agents 0 output [] of
        Inl e \<Rightarrow> Inl e
      | Inr merged_output \<Rightarrow>
          (case filter_team1 merged_output of
             Inl e \<Rightarrow> Inl e
           | Inr filtered_output \<Rightarrow>
               if filtered_output = [] then Inr [] else clean_rows filtered_output))"

subsection \<open>The scoreboard store\<close>

text \<open>
  Modelled from the spec: \<^verbatim>\<open>srf.write_csv\<close> belongs to the module
  \<^verbatim>\<open>ocr_library.functions\<close>, which is not among the sources. The specification (section 4.5) says that
  \<^verbatim>\<open>append(rows)\<close> "persists rows after the currently stored content, preserving arrival
  order across screenshots and within a screenshot"; after the reset at the start of the
  run the file does not exist, so the first call creates it.
\<close>

definition write_csv :: "row list \<Rightarrow> store \<Rightarrow> store" where
  "write_csv rows file = (case file of None \<Rightarrow> Some rows | Some stored \<Rightarrow> Some (stored @ rows))"

text \<open>The rows of the store, none when the file does not exist.\<close>

definition store_rows :: "store \<Rightarrow> row list" where
  "store_rows file = (case file of None \<Rightarrow> [] | Some stored \<Rightarrow> stored)"

subsection \<open>The batch loop (lines 125 to 173 of \<^verbatim>\<open>main\<close>)\<close>

text \<open>
  One iteration of \<^verbatim>\<open>for filename in screenshots\<close>. The only effect of an iteration is the
  call of \<^verbatim>\<open>srf.write_csv\<close> at its end, so the iteration maps the scoreboard file to the
  scoreboard file, or raises and leaves it as it was.
\<close>

definition process_screenshot :: "shot \<Rightarrow> json \<Rightarrow> store \<Rightarrow> py_error + store" where
  "process_screenshot sh maps file =
     (case find_map_name sh maps of
        Inl e \<Rightarrow> Inl e
      | Inr map_name \<Rightarrow>
     (case find_tables sh of
        Inl e \<Rightarrow> Inl e
      | Inr _ \<Rightarrow>
     (case extract_cell_images_from_table sh of
        Inl e \<Rightarrow> Inl e
      | Inr _ \<Rightarrow>
     (case identify_agents sh of
        Inl e \<Rightarrow> Inl e
      | Inr agents \<Rightarrow>
     (case read_table_rows sh of
        Inl e \<Rightarrow> Inl e
      | Inr output \<Rightarrow>
     (case merge_loop (current_date sh) map_name agents 0 output [] of
        Inl e \<Rightarrow> Inl e
      | Inr merged_output \<Rightarrow>
     (case filter_team1 merged_output of
        Inl e \<Rightarrow> Inl e
      | Inr filtered_output \<Rightarrow>
          if filtered_output = [] then Inr file
          else
            (case clean_rows filtered_output of
               Inl e \<Rightarrow> Inl e
             | Inr clean_output \<Rightarrow> Inr (write_csv clean_output file)))))))))"

text \<open>
  The loop over the screenshots: it stops at the first iteration that raises and keeps
  what the earlier iterations wrote.
\<close>

fun batch_loop :: "(string \<Rightarrow> shot) \<Rightarrow> json \<Rightarrow> string list \<Rightarrow> store \<Rightarrow> py_error option \<times> store" where
  "batch_loop srf maps [] file = (None, file)"
| "batch_loop srf maps (filename # screenshots) file =
     (case process_screenshot (srf filename) maps file of
        Inl e \<Rightarrow> (Some e, file)
      | Inr file' \<Rightarrow> batch_loop srf maps screenshots file')"

subsection \<open>\<^verbatim>\<open>main\<close>\<close>

text \<open>
  \<^verbatim>\<open>f.lower().endswith(".png")\<close> on a file name of ASCII characters.
\<close>

definition lower_char :: "char \<Rightarrow> char" where
  "lower_char c =
     (let n = (of_char c :: nat) in if 65 \<le> n \<and> n \<le> 90 then char_of (n + 32) else c)"

definition endswith :: "string \<Rightarrow> string \<Rightarrow> bool" where
  "endswith s suffix =
     (length suffix \<le> length s \<and> drop (length s - length suffix) s = suffix)"

definition is_png :: "string \<Rightarrow> bool" where
  "is_png f = endswith (map lower_char f) ''.png''"

text \<open>\<^verbatim>\<open>os.remove(path)\<close>, as far as it can raise.\<close>

definition os_remove :: "world \<Rightarrow> string \<Rightarrow> py_error + unit" where
  "os_remove w name = (if name \<in> set (undeletable w) then Inl PermissionError else Inr ())"

text \<open>
  Lines 108 to 113: read the configuration file if it exists, create it otherwise.
  \<^verbatim>\<open>main\<close> and \<^verbatim>\<open>config_parser\<close> each compute the base path with their own
  \<^verbatim>\<open>get_base_path\<close>; the two modules sit in one directory, so both name the same file.
\<close>

definition load_config :: "world \<Rightarrow> (py_error + config_values) \<times> world" where
  "load_config w =
     (if config_ini w \<noteq> None then (read_config w, w) else create_config w)"

text \<open>Lines 117 to 119: remove the old scoreboard file if it exists.\<close>

definition reset_scoreboard :: "world \<Rightarrow> py_error + world" where
  "reset_scoreboard w =
     (if scoreboard_csv w \<noteq> None then
        (case os_remove w ''scoreboard.csv'' of
           Inl e \<Rightarrow> Inl e
         | Inr _ \<Rightarrow> Inr (w\<lparr>scoreboard_csv := None\<rparr>))
      else Inr w)"

text \<open>Lines 179 to 182: remove the temporary headshot file if it exists.\<close>

definition cleanup_temp :: "world \<Rightarrow> py_error + world" where
  "cleanup_temp w =
     (if temp_headshot w then
        (case os_remove w ''temp_headshot.png'' of
           Inl e \<Rightarrow> Inl e
         | Inr _ \<Rightarrow> Inr (w\<lparr>temp_headshot := False\<rparr>))
      else Inr w)"

text \<open>
  Lines 179 to 191, after the loop: clean up, read the scoreboard file back (\<^verbatim>\<open>open\<close>
  raises when it does not exist), copy it to the clipboard.
\<close>

definition finalize :: "world \<Rightarrow> outcome \<times> world" where
  "finalize w =
     (case cleanup_temp w of
        Inl e \<Rightarrow> (Failed e, w)
      | Inr w' \<Rightarrow>
          (case scoreboard_csv w' of
             None \<Rightarrow> (Failed FileNotFoundError, w')
           | Some scoreboard_data \<Rightarrow> (Completed, w'\<lparr>clipboard := Some scoreboard_data\<rparr>)))"

text \<open>
  The whole of \<^verbatim>\<open>main\<close>, with the \<^verbatim>\<open>except Exception\<close> clause as the \<open>Failed\<close>
  outcome. \<open>srf\<close> gives, for each file name, what the run observes on that screenshot.
  Writing \<^verbatim>\<open>config.ini\<close>, \<^verbatim>\<open>cv2.imread\<close> (which returns \<^verbatim>\<open>None\<close> for a file it cannot
  read) and \<^verbatim>\<open>pyperclip.copy\<close> are taken not to raise.
\<close>

definition main :: "(string \<Rightarrow> shot) \<Rightarrow> world \<Rightarrow> outcome \<times> world" where
  "main srf w =
     (if \<not> setup_tesseract w then (TesseractFailed, w)
      else
        (case load_config w of
           (Inl e, w1) \<Rightarrow> (Failed e, w1)
         | (Inr config_data, w1) \<Rightarrow>
             (case config_data ''maps'' of
                None \<Rightarrow> (Failed KeyError, w1)
              | Some maps \<Rightarrow>
                  (case reset_scoreboard w1 of
                     Inl e \<Rightarrow> (Failed e, w1)
                   | Inr w2 \<Rightarrow>
                       (case screenshots_dir w2 of
                          None \<Rightarrow> (NoInput, w2)
                        | Some entries \<Rightarrow>
                            (let screenshots = filter is_png entries
                             in case batch_loop srf maps screenshots (scoreboard_csv w2) of
                                  (Some e, file) \<Rightarrow> (Failed e, w2\<lparr>scoreboard_csv := file\<rparr>)
                                | (None, file) \<Rightarrow> finalize (w2\<lparr>scoreboard_csv := file\<rparr>)))))))"

subsection \<open>Notions used to state the properties\<close>

text \<open>
  The rows one screenshot contributes to the scoreboard: the calls into \<^verbatim>\<open>srf\<close> in the
  order of the loop body, then the row transformer.
\<close>

definition screenshot_rows :: "shot \<Rightarrow> json \<Rightarrow> py_error + row list" where
  "screenshot_rows sh maps =
     (case find_map_name sh maps of
        Inl e \<Rightarrow> Inl e
      | Inr map_name \<Rightarrow>
     (case find_tables sh of
        Inl e \<Rightarrow> Inl e
      | Inr _ \<Rightarrow>
     (case extract_cell_images_from_table sh of
        Inl e \<Rightarrow> Inl e
      | Inr _ \<Rightarrow>
     (case identify_agents sh of
        Inl e \<Rightarrow> Inl e
      | Inr agents \<Rightarrow>
     (case read_table_rows sh of
        Inl e \<Rightarrow> Inl e
      | Inr output \<Rightarrow> transform (current_date sh) map_name agents output)))))"

text \<open>A JSON value that is a sequence of strings, as the specification types \<^verbatim>\<open>maps\<close>.\<close>

fun is_string :: "json \<Rightarrow> bool" where
  "is_string (JStr s) = True"
| "is_string _ = False"

fun is_string_seq :: "json \<Rightarrow> bool" where
  "is_string_seq (JArr items) = list_all is_string items"
| "is_string_seq _ = False"

text \<open>
  The specification's "the \<^verbatim>\<open>maps\<close> field is missing or not valid structured data", on
  the content of a configuration file: the file does not parse, it has no section
  \<^verbatim>\<open>General\<close>, neither that section nor \<^verbatim>\<open>DEFAULT\<close> has an option \<^verbatim>\<open>maps\<close>, or the
  text of the option is not JSON.
\<close>

fun maps_field :: "ini \<Rightarrow> ini_value option" where
  "maps_field Malformed = None"
| "maps_field (Ini defaults sections) =
     (case map_of sections ''General'' of
        None \<Rightarrow> None
      | Some options \<Rightarrow> map_of (options @ defaults) ''maps'')"

definition maps_missing_or_invalid :: "ini \<Rightarrow> bool" where
  "maps_missing_or_invalid file =
     (case maps_field file of
        None \<Rightarrow> True
      | Some (JsonText j) \<Rightarrow> False
      | Some _ \<Rightarrow> True)"


subsection \<open>A sample run\<close>

text \<open>
  A screenshot on which every call into \<^verbatim>\<open>srf\<close> returns, and one on which
  \<^verbatim>\<open>srf.find_tables\<close> raises.
\<close>

definition shot_of :: "string \<Rightarrow> string \<Rightarrow> string list \<Rightarrow> row list \<Rightarrow> shot" where
  "shot_of date map_name agents output =
     \<lparr>find_map_name = (\<lambda>maps. Inr map_name),
      find_tables = Inr (),
      extract_cell_images_from_table = Inr (),
      identify_agents = Inr agents,
      read_table_rows = Inr output,
      current_date = date\<rparr>"

definition no_table_shot :: shot where
  "no_table_shot = (shot_of ''01/01/2024'' ''Ascent'' [] [])\<lparr>find_tables := Inl TableNotFoundError\<rparr>"

definition shot_A :: shot where
  "shot_A = shot_of ''01/01/2024'' ''Ascent'' [''Jett'', ''Sova'']
     [[''team1'', ''10'', ''2'', ''5''], [''team2'', ''8'', ''3'', ''4'']]"

definition shot_B :: shot where
  "shot_B = shot_of ''01/01/2024'' ''Bind'' [''Sage'', ''Omen'']
     [[''team2'', ''1'', ''1'', ''1''], [''team1'', ''7'', ''6'', ''5'']]"

definition shot_C :: shot where
  "shot_C = shot_of ''02/01/2024'' ''Ascent'' [''Reyna'', ''Brim'']
     [[''team1'', ''3'', ''2'', ''1''], [''team1'', ''4'', ''4'', ''4'']]"

definition example_srf :: "string \<Rightarrow> shot" where
  "example_srf filename =
     (if filename = ''A.png'' then shot_A
      else if filename = ''B.PNG'' then shot_B
      else if filename = ''C.png'' then shot_C
      else no_table_shot)"


definition example_world :: world where
  "example_world =
     \<lparr>tesseract_dir = Some [''tesseract.exe'', ''tessdata/eng.traineddata''],
      config_ini = Some (Ini [] [(''General'', [(''maps'', JsonText (JArr [JStr ''Ascent'', JStr ''Bind'']))])]),
      scoreboard_csv = Some [[''31/12/2023'', ''Bind'', ''Omen'', ''0'', ''0'', ''0'']],
      screenshots_dir = Some [''A.png'', ''notes.txt'', ''B.PNG'', ''C.png''],
      temp_headshot = True,
      undeletable = [],
      clipboard = None\<rparr>"

section \<open>Properties\<close>

subsection \<open>The row transformer\<close>

lemma merge_loop_Inr:
  "merge_loop d m agents i rows acc = Inr res \<Longrightarrow>
     res = acc @ map (\<lambda>(row, a). [d, hd row, m, a] @ drop 1 row) (zip rows (drop i agents))
     \<and> (\<forall>row\<in>set rows. row \<noteq> []) \<and> (rows \<noteq> [] \<longrightarrow> i + length rows \<le> length agents)"
proof (induction rows arbitrary: i acc)
  case Nil
  then show ?case by simp
next
  case (Cons row rest)
  from Cons.prems obtain team where team: "py_index row 0 = Inr team"
    by (auto split: sum.splits)
  then have row: "row \<noteq> []" and hd: "team = hd row"
    by (auto simp: py_index_def hd_conv_nth split: if_splits)
  from Cons.prems team obtain agent where agent: "py_index agents i = Inr agent"
    by (auto simp: Let_def split: sum.splits)
  then have i: "i < length agents" and ag: "agent = agents ! i"
    by (auto simp: py_index_def split: if_splits)
  from Cons.prems team agent
  have rec: "merge_loop d m agents (Suc i) rest (acc @ [[d, team, m, agent] @ drop 1 row]) = Inr res"
    by (simp add: Let_def)
  note ih = Cons.IH [OF rec]
  have dr: "drop i agents = agents ! i # drop (Suc i) agents"
    using i by (simp add: Cons_nth_drop_Suc)
  show ?case
    using ih row hd ag i by (auto simp: dr)
qed

lemma merge_loop_ok:
  "(\<forall>row\<in>set rows. row \<noteq> []) \<Longrightarrow> i + length rows \<le> length agents \<Longrightarrow>
     \<exists>res. merge_loop d m agents i rows acc = Inr res"
proof (induction rows arbitrary: i acc)
  case Nil
  then show ?case by simp
next
  case (Cons row rest)
  then show ?case
    by (cases row) (auto simp: py_index_def Let_def)
qed

lemma merge_loop_short:
  "i \<le> length agents \<Longrightarrow> length agents < i + length rows \<Longrightarrow> merge_loop d m agents i rows acc = Inl IndexError"
proof (induction rows arbitrary: i acc)
  case Nil
  then show ?case by simp
next
  case (Cons row rest)
  then show ?case
    by (cases row) (auto simp: py_index_def Let_def)
qed

lemma filter_team1_total:
  "\<forall>r\<in>set rs. 1 < length r \<Longrightarrow> filter_team1 rs = Inr (filter (\<lambda>r. r ! 1 = ''team1'') rs)"
  by (induction rs) (auto simp: py_index_def)

lemma clean_rows_total:
  "\<forall>r\<in>set rs. 3 < length r \<Longrightarrow>
     clean_rows rs = Inr (map (\<lambda>r. [r ! 0, r ! 2, r ! 3] @ drop 4 r) rs)"
  by (induction rs) (auto simp: py_index_def clean_row_def)


lemma transform_Inr:
  assumes "transform d m agents output = Inr clean"
  shows "clean = map (\<lambda>(row, agent). [d, m, agent] @ drop 1 row)
                   (filter (\<lambda>(row, agent). take 1 row = [''team1'']) (zip output agents))"
    and "\<forall>row\<in>set output. row \<noteq> []"
    and "output \<noteq> [] \<longrightarrow> length output \<le> length agents"
proof -
  let ?mk = "\<lambda>(row, a). [d, hd row, m, a] @ drop 1 row"
  let ?merged = "map ?mk (zip output agents)"
  from assms obtain merged where m1: "merge_loop d m agents 0 output [] = Inr merged"
    by (auto simp: transform_def split: sum.splits)
  from merge_loop_Inr [OF m1]
  have merged: "merged = ?merged" and ne: "\<forall>row\<in>set output. row \<noteq> []"
    and len: "output \<noteq> [] \<longrightarrow> length output \<le> length agents"
    by simp_all
  show "\<forall>row\<in>set output. row \<noteq> []" by (rule ne)
  show "output \<noteq> [] \<longrightarrow> length output \<le> length agents" by (rule len)
  have long: "\<forall>r\<in>set merged. 3 < length r"
    by (auto simp: merged)
  then have long1: "\<forall>r\<in>set merged. 1 < length r"
    by auto
  let ?filtered = "filter (\<lambda>r. r ! 1 = ''team1'') merged"
  have f1: "filter_team1 merged = Inr ?filtered"
    by (rule filter_team1_total [OF long1])
  have long2: "\<forall>r\<in>set ?filtered. 3 < length r"
    using long by auto
  have c1: "clean_rows ?filtered = Inr (map (\<lambda>r. [r ! 0, r ! 2, r ! 3] @ drop 4 r) ?filtered)"
    by (rule clean_rows_total [OF long2])
  have "transform d m agents output =
          (if ?filtered = [] then Inr [] else Inr (map (\<lambda>r. [r ! 0, r ! 2, r ! 3] @ drop 4 r) ?filtered))"
    unfolding transform_def m1 f1 c1 sum.case ..
  with assms have "clean = map (\<lambda>r. [r ! 0, r ! 2, r ! 3] @ drop 4 r) ?filtered"
    by (simp split: if_splits)
  also have "\<dots> = map ((\<lambda>r. [r ! 0, r ! 2, r ! 3] @ drop 4 r) \<circ> ?mk)
                     (filter ((\<lambda>r. r ! 1 = ''team1'') \<circ> ?mk) (zip output agents))"
    by (simp add: merged filter_map)
  also have "\<dots> = map (\<lambda>(row, agent). [d, m, agent] @ drop 1 row)
                     (filter ((\<lambda>r. r ! 1 = ''team1'') \<circ> ?mk) (zip output agents))"
    by (rule map_cong) auto
  also have "filter ((\<lambda>r. r ! 1 = ''team1'') \<circ> ?mk) (zip output agents)
             = filter (\<lambda>(row, agent). take 1 row = [''team1'']) (zip output agents)"
  proof (rule filter_cong [OF refl])
    fix p assume "p \<in> set (zip output agents)"
    then obtain row a where p: "p = (row, a)" and "row \<in> set output"
      by (metis prod.exhaust set_zip_leftD)
    with ne obtain t ps where "row = t # ps"
      by (cases row) auto
    with p show "((\<lambda>r. r ! 1 = ''team1'') \<circ> ?mk) p = (case p of (row, agent) \<Rightarrow> take 1 row = [''team1''])"
      by simp
  qed
  finally show "clean = map (\<lambda>(row, agent). [d, m, agent] @ drop 1 row)
                   (filter (\<lambda>(row, agent). take 1 row = [''team1'']) (zip output agents))" .
qed

lemma transform_ok:
  assumes "\<forall>row\<in>set output. row \<noteq> []" and "length output \<le> length agents"
  shows "\<exists>clean. transform d m agents output = Inr clean"
proof -
  from merge_loop_ok [of "output" 0 agents d m "[]"] assms
  obtain merged where m1: "merge_loop d m agents 0 output [] = Inr merged"
    by auto
  from merge_loop_Inr [OF m1] have long: "\<forall>r\<in>set merged. 3 < length r"
    by auto
  then have long1: "\<forall>r\<in>set merged. 1 < length r"
    by auto
  have long2: "\<forall>r\<in>set (filter (\<lambda>r. r ! 1 = ''team1'') merged). 3 < length r"
    using long by auto
  show ?thesis
    unfolding transform_def m1 filter_team1_total [OF long1] clean_rows_total [OF long2] sum.case
    by simp
qed

lemma transform_short:
  "length agents < length output \<Longrightarrow> transform d m agents output = Inl IndexError"
  by (simp add: transform_def merge_loop_short)

lemma clean_rows_length: "clean_rows rs = Inr cs \<Longrightarrow> length cs = length rs"
  by (induction rs arbitrary: cs) (auto split: sum.splits)

lemma process_screenshot_transform:
  "(case merge_loop d m agents 0 out [] of
      Inl e \<Rightarrow> Inl e
    | Inr merged \<Rightarrow>
        (case filter_team1 merged of
           Inl e \<Rightarrow> Inl e
         | Inr filtered \<Rightarrow>
             if filtered = [] then Inr file
             else (case clean_rows filtered of
                     Inl e \<Rightarrow> Inl e
                   | Inr clean \<Rightarrow> Inr (write_csv clean file))))
   = (case transform d m agents out of
        Inl e \<Rightarrow> Inl e
      | Inr rows \<Rightarrow> Inr (if rows = [] then file else write_csv rows file))"
  by (auto simp: transform_def split: sum.splits dest: clean_rows_length)

lemma process_screenshot_rows:
  "process_screenshot sh maps file =
     (case screenshot_rows sh maps of
        Inl e \<Rightarrow> Inl e
      | Inr rows \<Rightarrow> Inr (if rows = [] then file else write_csv rows file))"
  unfolding process_screenshot_def screenshot_rows_def process_screenshot_transform
  by (simp split: sum.splits)

lemma store_rows_write_csv: "store_rows (write_csv rows file) = store_rows file @ rows"
  by (simp add: store_rows_def write_csv_def split: option.splits)

text \<open>
  C1. Team filter correctness: when the calls into \<^verbatim>\<open>srf\<close> return for a screenshot (every
  row carrying its team tag, and an agent for every row), the iteration succeeds and
  appends to the scoreboard exactly the rows tagged \<^verbatim>\<open>team1\<close>, in their order, each as
  date, map, agent and player fields; no row tagged otherwise reaches the scoreboard.
\<close>

theorem team_filter_correct:
  assumes "find_map_name sh maps = Inr map_name"
    and "find_tables sh = Inr ()"
    and "extract_cell_images_from_table sh = Inr ()"
    and "identify_agents sh = Inr agents"
    and "read_table_rows sh = Inr output"
    and "\<forall>row\<in>set output. row \<noteq> []"
    and "length output \<le> length agents"
  shows "\<exists>file'. process_screenshot sh maps file = Inr file' \<and>
           store_rows file' = store_rows file @
             map (\<lambda>(row, agent). [current_date sh, map_name, agent] @ drop 1 row)
                 (filter (\<lambda>(row, agent). take 1 row = [''team1'']) (zip output agents))"
proof -
  from transform_ok [OF assms(6,7)]
  obtain clean where t: "transform (current_date sh) map_name agents output = Inr clean"
    by blast
  have rows: "screenshot_rows sh maps = Inr clean"
    by (simp add: screenshot_rows_def assms(1-5) t)
  have "process_screenshot sh maps file = Inr (if clean = [] then file else write_csv clean file)"
    by (simp add: process_screenshot_rows rows)
  moreover have "store_rows (if clean = [] then file else write_csv clean file) = store_rows file @ clean"
    by (simp add: store_rows_write_csv)
  ultimately show ?thesis
    using transform_Inr(1) [OF t] by simp
qed

theorem team_filter_correct_witness:
  "find_map_name shot_A (JArr []) = Inr ''Ascent''
   \<and> find_tables shot_A = Inr ()
   \<and> extract_cell_images_from_table shot_A = Inr ()
   \<and> identify_agents shot_A = Inr [''Jett'', ''Sova'']
   \<and> read_table_rows shot_A = Inr [[''team1'', ''10'', ''2'', ''5''], [''team2'', ''8'', ''3'', ''4'']]
   \<and> current_date shot_A = ''01/01/2024''
   \<and> (\<exists>file'. process_screenshot shot_A (JArr []) None = Inr file' \<and>
         store_rows file' = [[''01/01/2024'', ''Ascent'', ''Jett'', ''10'', ''2'', ''5'']])"
  using team_filter_correct [of shot_A "JArr []" "''Ascent''" "[''Jett'', ''Sova'']"
      "[[''team1'', ''10'', ''2'', ''5''], [''team2'', ''8'', ''3'', ''4'']]" None]
  by (simp add: shot_A_def shot_of_def store_rows_def)

text \<open>
  C2. Schema invariant: when the calls into \<^verbatim>\<open>srf\<close> return for a screenshot, every row
  carrying \<open>k\<close> player fields after its team tag and an agent for every row, the iteration
  succeeds, and every row it appends to the scoreboard has \<open>3 + k\<close> columns: the date, the
  map, the agent of the row it comes from, then that row's player fields in their order.
  The row it comes from is tagged \<^verbatim>\<open>team1\<close>, and the tag is not a column.
\<close>

theorem schema_invariant:
  assumes "find_map_name sh maps = Inr map_name"
    and "find_tables sh = Inr ()"
    and "extract_cell_images_from_table sh = Inr ()"
    and "identify_agents sh = Inr agents"
    and "read_table_rows sh = Inr output"
    and "\<forall>row\<in>set output. length row = Suc k"
    and "length output \<le> length agents"
  shows "\<exists>file' clean_output.
           process_screenshot sh maps file = Inr file'
           \<and> store_rows file' = store_rows file @ clean_output
           \<and> (\<forall>r\<in>set clean_output.
                 length r = 3 + k
                 \<and> (\<exists>j fields. j < length output \<and> j < length agents
                       \<and> output ! j = ''team1'' # fields \<and> length fields = k
                       \<and> r = [current_date sh, map_name, agents ! j] @ fields))"
proof -
  have ne: "\<forall>row\<in>set output. row \<noteq> []"
    using assms(6) by auto
  from transform_ok [OF ne assms(7)]
  obtain clean where t: "transform (current_date sh) map_name agents output = Inr clean"
    by blast
  have rows: "screenshot_rows sh maps = Inr clean"
    by (simp add: screenshot_rows_def assms(1-5) t)
  let ?file' = "if clean = [] then file else write_csv clean file"
  have run: "process_screenshot sh maps file = Inr ?file'"
    by (simp add: process_screenshot_rows rows)
  have stored: "store_rows ?file' = store_rows file @ clean"
    by (simp add: store_rows_write_csv)
  have shape: "length r = 3 + k
        \<and> (\<exists>j fields. j < length output \<and> j < length agents
              \<and> output ! j = ''team1'' # fields \<and> length fields = k
              \<and> r = [current_date sh, map_name, agents ! j] @ fields)"
    if "r \<in> set clean" for r
  proof -
    from transform_Inr(1) [OF t] that
    obtain row agent where z: "(row, agent) \<in> set (zip output agents)"
      and tag: "take 1 row = [''team1'']"
      and r: "r = [current_date sh, map_name, agent] @ drop 1 row"
      by auto
    from z obtain j where j: "j < length output" "j < length agents"
      and row: "row = output ! j" and agent: "agent = agents ! j"
      by (auto simp: in_set_zip)
    from tag obtain fields where f: "row = ''team1'' # fields"
      by (cases row) auto
    from z assms(6) have "length row = Suc k"
      by (auto dest: set_zip_leftD)
    with f have k: "length fields = k" by simp
    have r': "r = [current_date sh, map_name, agents ! j] @ fields"
      using r f agent by simp
    have src: "output ! j = ''team1'' # fields"
      using row f by simp
    have "length r = 3 + k"
      using r' k by simp
    moreover have "\<exists>j fields. j < length output \<and> j < length agents
              \<and> output ! j = ''team1'' # fields \<and> length fields = k
              \<and> r = [current_date sh, map_name, agents ! j] @ fields"
      using j src k r' by blast
    ultimately show ?thesis ..
  qed
  show ?thesis
    using run stored shape by blast
qed

theorem schema_invariant_witness:
  "find_map_name shot_A (JArr []) = Inr ''Ascent''
   \<and> find_tables shot_A = Inr ()
   \<and> extract_cell_images_from_table shot_A = Inr ()
   \<and> identify_agents shot_A = Inr [''Jett'', ''Sova'']
   \<and> read_table_rows shot_A = Inr [[''team1'', ''10'', ''2'', ''5''], [''team2'', ''8'', ''3'', ''4'']]
   \<and> list_all (\<lambda>row. length row = Suc 3) [[''team1'', ''10'', ''2'', ''5''], [''team2'', ''8'', ''3'', ''4'']]
   \<and> process_screenshot shot_A (JArr []) (Some [[''31/12/2023'', ''Bind'', ''Omen'', ''0'', ''0'', ''0'']]) =
       Inr (Some [[''31/12/2023'', ''Bind'', ''Omen'', ''0'', ''0'', ''0''],
                  [''01/01/2024'', ''Ascent'', ''Jett'', ''10'', ''2'', ''5'']])
   \<and> (\<exists>file' clean_output.
         process_screenshot shot_A (JArr []) (Some [[''31/12/2023'', ''Bind'', ''Omen'', ''0'', ''0'', ''0'']]) = Inr file'
         \<and> store_rows file' =
             store_rows (Some [[''31/12/2023'', ''Bind'', ''Omen'', ''0'', ''0'', ''0'']]) @ clean_output
         \<and> (\<forall>r\<in>set clean_output.
               length r = 3 + 3
               \<and> (\<exists>j fields. j < length [[''team1'', ''10'', ''2'', ''5''], [''team2'', ''8'', ''3'', ''4'']]
                     \<and> j < length [''Jett'', ''Sova'']
                     \<and> [[''team1'', ''10'', ''2'', ''5''], [''team2'', ''8'', ''3'', ''4'']] ! j = ''team1'' # fields
                     \<and> length fields = 3
                     \<and> r = [current_date shot_A, ''Ascent'', [''Jett'', ''Sova''] ! j] @ fields)))"
proof -
  let ?out = "[[''team1'', ''10'', ''2'', ''5''], [''team2'', ''8'', ''3'', ''4'']]"
  have h1: "find_map_name shot_A (JArr []) = Inr ''Ascent''"
    and h2: "find_tables shot_A = Inr ()"
    and h3: "extract_cell_images_from_table shot_A = Inr ()"
    and h4: "identify_agents shot_A = Inr [''Jett'', ''Sova'']"
    and h5: "read_table_rows shot_A = Inr ?out"
    by (simp_all add: shot_A_def shot_of_def)
  have h6: "\<forall>row\<in>set ?out. length row = Suc 3"
    by simp
  have h6': "list_all (\<lambda>row. length row = Suc 3) ?out"
    by simp
  have h7: "length ?out \<le> length [''Jett'', ''Sova'']"
    by simp
  have run: "process_screenshot shot_A (JArr []) (Some [[''31/12/2023'', ''Bind'', ''Omen'', ''0'', ''0'', ''0'']]) =
       Inr (Some [[''31/12/2023'', ''Bind'', ''Omen'', ''0'', ''0'', ''0''],
                  [''01/01/2024'', ''Ascent'', ''Jett'', ''10'', ''2'', ''5'']])"
    by (simp add: process_screenshot_def shot_A_def shot_of_def py_index_def clean_row_def write_csv_def)
  note inv = schema_invariant [OF h1 h2 h3 h4 h5 h6 h7,
      of "Some [[''31/12/2023'', ''Bind'', ''Omen'', ''0'', ''0'', ''0'']]"]
  show ?thesis
    using h1 h2 h3 h4 h5 h6' run inv by blast
qed

subsection \<open>The batch loop and the run\<close>

lemma write_csv_twice: "write_csv b (write_csv a csv) = write_csv (a @ b) csv"
  by (simp add: write_csv_def split: option.splits)

lemma write_csv_Nil: "csv \<noteq> None \<Longrightarrow> write_csv [] csv = csv"
  by (auto simp: write_csv_def)

lemma batch_loop_all_ok:
  "\<forall>f\<in>set fs. screenshot_rows (srf f) maps = Inr (rows f) \<Longrightarrow>
     batch_loop srf maps fs csv =
       (None, if concat (map rows fs) = [] then csv else write_csv (concat (map rows fs)) csv)"
proof (induction fs arbitrary: csv)
  case Nil
  then show ?case by simp
next
  case (Cons f fs)
  have step: "process_screenshot (srf f) maps csv =
      Inr (if rows f = [] then csv else write_csv (rows f) csv)"
    using Cons.prems by (simp add: process_screenshot_rows)
  have rest: "\<forall>g\<in>set fs. screenshot_rows (srf g) maps = Inr (rows g)"
    using Cons.prems by simp
  define c where "c = concat (map rows fs)"
  have ih: "batch_loop srf maps fs csv' = (None, if c = [] then csv' else write_csv c csv')" for csv'
    unfolding c_def by (rule Cons.IH [OF rest])
  have c: "concat (map rows (f # fs)) = rows f @ c"
    by (simp add: c_def)
  show ?case
    unfolding c batch_loop.simps step sum.case ih
    by (simp add: write_csv_twice)
qed

lemma batch_loop_append:
  "batch_loop srf maps (xs @ ys) csv =
     (case batch_loop srf maps xs csv of
        (Some e, csv') \<Rightarrow> (Some e, csv')
      | (None, csv') \<Rightarrow> batch_loop srf maps ys csv')"
  by (induction xs arbitrary: csv) (auto split: sum.splits)

lemma batch_loop_fail_fast:
  assumes "\<forall>f\<in>set pre. screenshot_rows (srf f) maps = Inr (rows f)"
    and "screenshot_rows (srf b) maps = Inl e"
  shows "batch_loop srf maps (pre @ b # post) csv =
       (Some e, if concat (map rows pre) = [] then csv else write_csv (concat (map rows pre)) csv)"
  by (simp add: batch_loop_append batch_loop_all_ok [OF assms(1)] process_screenshot_rows assms(2))

lemma load_config_world:
  "snd (load_config w) = (if config_ini w = None then w\<lparr>config_ini := Some default_ini\<rparr> else w)"
  by (simp add: load_config_def create_config_def Let_def)

lemma reset_scoreboard_ok:
  assumes "scoreboard_csv w = None \<or> ''scoreboard.csv'' \<notin> set (undeletable w)"
  shows "reset_scoreboard w = Inr (w\<lparr>scoreboard_csv := None\<rparr>)"
proof (cases "scoreboard_csv w = None")
  case True
  then have "w\<lparr>scoreboard_csv := None\<rparr> = w" by simp
  with True show ?thesis by (simp add: reset_scoreboard_def)
next
  case False
  with assms show ?thesis by (simp add: reset_scoreboard_def os_remove_def)
qed

lemma main_loop:
  assumes "setup_tesseract w"
    and "load_config w = (Inr config_data, w1)"
    and "config_data ''maps'' = Some maps"
    and "scoreboard_csv w = None \<or> ''scoreboard.csv'' \<notin> set (undeletable w)"
    and "screenshots_dir w = Some entries"
  shows "main srf w =
     (case batch_loop srf maps (filter is_png entries) None of
        (Some e, csv) \<Rightarrow> (Failed e, w1\<lparr>scoreboard_csv := csv\<rparr>)
      | (None, csv) \<Rightarrow> finalize (w1\<lparr>scoreboard_csv := csv\<rparr>))"
proof -
  have w1: "w1 = (if config_ini w = None then w\<lparr>config_ini := Some default_ini\<rparr> else w)"
    using load_config_world [of w] assms(2) by simp
  have "scoreboard_csv w1 = None \<or> ''scoreboard.csv'' \<notin> set (undeletable w1)"
    using assms(4) by (simp add: w1)
  then have reset: "reset_scoreboard w1 = Inr (w1\<lparr>scoreboard_csv := None\<rparr>)"
    by (rule reset_scoreboard_ok)
  have dir: "screenshots_dir (w1\<lparr>scoreboard_csv := None\<rparr>) = Some entries"
    using assms(5) by (simp add: w1)
  show ?thesis
    by (simp add: main_def assms(1,2,3) reset dir Let_def split: prod.splits option.splits)
qed

lemma finalize_cases:
  "finalize w =
     (if temp_headshot w \<and> ''temp_headshot.png'' \<in> set (undeletable w)
      then (Failed PermissionError, w)
      else (case scoreboard_csv w of
              None \<Rightarrow> (Failed FileNotFoundError, w\<lparr>temp_headshot := False\<rparr>)
            | Some scoreboard_data \<Rightarrow>
                (Completed, w\<lparr>temp_headshot := False, clipboard := Some scoreboard_data\<rparr>)))"
proof (cases "temp_headshot w")
  case True
  then show ?thesis
    by (simp add: finalize_def cleanup_temp_def os_remove_def split: option.splits)
next
  case False
  then have "w\<lparr>temp_headshot := False\<rparr> = w" by simp
  with False show ?thesis
    by (simp add: finalize_def cleanup_temp_def split: option.splits)
qed

lemma store_rows_appended:
  "store_rows (if rows = [] then None else write_csv rows None) = rows"
  by (simp add: store_rows_def write_csv_def)

subsection \<open>The sample run\<close>

lemma example_config:
  "load_config example_world =
     (Inr [''maps'' \<mapsto> JArr [JStr ''Ascent'', JStr ''Bind'']], example_world)"
  by (simp add: load_config_def example_world_def read_config_def config_read_def)

lemma example_setup: "setup_tesseract example_world"
  by (simp add: setup_tesseract_def example_world_def required_files_def)

lemma example_pngs:
  "filter is_png [''A.png'', ''notes.txt'', ''B.PNG'', ''C.png''] = [''A.png'', ''B.PNG'', ''C.png'']"
  by code_simp

lemma example_rows:
  "screenshot_rows (example_srf ''A.png'') maps = Inr [[''01/01/2024'', ''Ascent'', ''Jett'', ''10'', ''2'', ''5'']]"
  "screenshot_rows (example_srf ''B.PNG'') maps = Inr [[''01/01/2024'', ''Bind'', ''Omen'', ''7'', ''6'', ''5'']]"
  "screenshot_rows (example_srf ''C.png'') maps = Inr [[''02/01/2024'', ''Ascent'', ''Reyna'', ''3'', ''2'', ''1''],
       [''02/01/2024'', ''Ascent'', ''Brim'', ''4'', ''4'', ''4'']]"
  by (simp_all add: screenshot_rows_def example_srf_def shot_A_def shot_B_def shot_C_def shot_of_def
      transform_def py_index_def clean_row_def)

subsection \<open>Append ordering\<close>

text \<open>
  C3. Append ordering: in a run that reaches the batch loop and in which every screenshot
  is processed without an exception, the scoreboard holds, at the end, the rows of the
  screenshots in processing order, each screenshot's rows in their own order: for the
  screenshots \<open>[A, B, C]\<close> it is \<open>rows A @ rows B @ rows C\<close>. A run that completes
  publishes exactly this content. (\<^verbatim>\<open>srf.write_csv\<close> is the append of the specification.)
\<close>

theorem append_ordering:
  assumes "setup_tesseract w"
    and "load_config w = (Inr config_data, w1)"
    and "config_data ''maps'' = Some maps"
    and "scoreboard_csv w = None \<or> ''scoreboard.csv'' \<notin> set (undeletable w)"
    and "screenshots_dir w = Some entries"
    and "\<forall>f\<in>set (filter is_png entries). screenshot_rows (srf f) maps = Inr (rows f)"
  shows "store_rows (scoreboard_csv (snd (main srf w))) = concat (map rows (filter is_png entries))
       \<and> (fst (main srf w) = Completed \<longrightarrow>
            clipboard (snd (main srf w)) = Some (concat (map rows (filter is_png entries))))"
proof -
  define all where "all = concat (map rows (filter is_png entries))"
  define csv where "csv = (if all = [] then None else write_csv all None)"
  have loop: "batch_loop srf maps (filter is_png entries) None = (None, csv)"
    unfolding csv_def all_def by (rule batch_loop_all_ok [OF assms(6)])
  have run: "main srf w = finalize (w1\<lparr>scoreboard_csv := csv\<rparr>)"
    by (simp add: main_loop [OF assms(1-5)] loop)
  have rows: "store_rows csv = all"
    unfolding csv_def by (rule store_rows_appended)
  have "store_rows (scoreboard_csv (snd (main srf w))) = all"
    using rows by (auto simp: run finalize_cases split: option.splits)
  moreover have "fst (main srf w) = Completed \<longrightarrow> clipboard (snd (main srf w)) = Some all"
    using rows by (auto simp: run finalize_cases store_rows_def split: option.splits if_splits)
  ultimately show ?thesis
    unfolding all_def by blast
qed

theorem append_ordering_witness:
  "setup_tesseract example_world
   \<and> screenshots_dir example_world = Some [''A.png'', ''notes.txt'', ''B.PNG'', ''C.png'']
   \<and> filter is_png [''A.png'', ''notes.txt'', ''B.PNG'', ''C.png''] = [''A.png'', ''B.PNG'', ''C.png'']
   \<and> store_rows (scoreboard_csv (snd (main example_srf example_world))) =
       [[''01/01/2024'', ''Ascent'', ''Jett'', ''10'', ''2'', ''5'']] @
       [[''01/01/2024'', ''Bind'', ''Omen'', ''7'', ''6'', ''5'']] @
       [[''02/01/2024'', ''Ascent'', ''Reyna'', ''3'', ''2'', ''1''],
        [''02/01/2024'', ''Ascent'', ''Brim'', ''4'', ''4'', ''4'']]
   \<and> fst (main example_srf example_world) = Completed
   \<and> clipboard (snd (main example_srf example_world)) =
       Some [[''01/01/2024'', ''Ascent'', ''Jett'', ''10'', ''2'', ''5''],
             [''01/01/2024'', ''Bind'', ''Omen'', ''7'', ''6'', ''5''],
             [''02/01/2024'', ''Ascent'', ''Reyna'', ''3'', ''2'', ''1''],
             [''02/01/2024'', ''Ascent'', ''Brim'', ''4'', ''4'', ''4'']]"
proof -
  let ?maps = "JArr [JStr ''Ascent'', JStr ''Bind'']"
  let ?entries = "[''A.png'', ''notes.txt'', ''B.PNG'', ''C.png'']"
  let ?rows = "\<lambda>f. if f = ''A.png'' then [[''01/01/2024'', ''Ascent'', ''Jett'', ''10'', ''2'', ''5'']]
       else if f = ''B.PNG'' then [[''01/01/2024'', ''Bind'', ''Omen'', ''7'', ''6'', ''5'']]
       else [[''02/01/2024'', ''Ascent'', ''Reyna'', ''3'', ''2'', ''1''],
             [''02/01/2024'', ''Ascent'', ''Brim'', ''4'', ''4'', ''4'']]"
  have h3: "[''maps'' \<mapsto> ?maps] ''maps'' = Some ?maps"
    by simp
  have h4: "scoreboard_csv example_world = None \<or> ''scoreboard.csv'' \<notin> set (undeletable example_world)"
    by (simp add: example_world_def)
  have h5: "screenshots_dir example_world = Some ?entries"
    by (simp add: example_world_def)
  have h6: "\<forall>f\<in>set (filter is_png ?entries). screenshot_rows (example_srf f) ?maps = Inr (?rows f)"
    unfolding example_pngs by (simp add: example_rows)
  have completed: "fst (main example_srf example_world) = Completed"
    by code_simp
  from append_ordering [OF example_setup example_config h3 h4 h5 h6]
  show ?thesis
    unfolding example_pngs using completed by (simp add: example_setup h5)
qed

subsection \<open>Failure inside the batch loop\<close>

lemma load_config_clipboard: "load_config w = (r, w1) \<Longrightarrow> clipboard w1 = clipboard w"
  using load_config_world [of w] by (auto split: if_splits)

lemma load_config_temp:
  "load_config w = (r, w1) \<Longrightarrow> temp_headshot w1 = temp_headshot w \<and> undeletable w1 = undeletable w"
  using load_config_world [of w] by (auto split: if_splits)

lemma main_fail_fast:
  assumes "setup_tesseract w"
    and "load_config w = (Inr config_data, w1)"
    and "config_data ''maps'' = Some maps"
    and "scoreboard_csv w = None \<or> ''scoreboard.csv'' \<notin> set (undeletable w)"
    and "screenshots_dir w = Some entries"
    and "filter is_png entries = pre @ b # post"
    and "\<forall>f\<in>set pre. screenshot_rows (srf f) maps = Inr (rows f)"
    and "screenshot_rows (srf b) maps = Inl e"
  shows "fst (main srf w) = Failed e"
    and "store_rows (scoreboard_csv (snd (main srf w))) = concat (map rows pre)"
    and "clipboard (snd (main srf w)) = clipboard w"
proof -
  define kept where "kept = concat (map rows pre)"
  define csv where "csv = (if kept = [] then None else write_csv kept None)"
  have loop: "batch_loop srf maps (filter is_png entries) None = (Some e, csv)"
    unfolding csv_def kept_def assms(6) by (rule batch_loop_fail_fast [OF assms(7,8)])
  have run: "main srf w = (Failed e, w1\<lparr>scoreboard_csv := csv\<rparr>)"
    by (simp add: main_loop [OF assms(1-5)] loop)
  show "fst (main srf w) = Failed e"
    by (simp add: run)
  have "store_rows csv = kept"
    unfolding csv_def by (rule store_rows_appended)
  then show "store_rows (scoreboard_csv (snd (main srf w))) = concat (map rows pre)"
    by (simp add: run kept_def)
  show "clipboard (snd (main srf w)) = clipboard w"
    by (simp add: run load_config_clipboard [OF assms(2)])
qed

text \<open>
  C4. Fail-fast propagation: when the screenshots before \<open>b\<close> are processed without an
  exception and \<^verbatim>\<open>srf.find_tables\<close> raises on \<open>b\<close> (the specification's
  \<^verbatim>\<open>TableNotFoundError\<close>, or any other exception), the run reports that failure; the
  scoreboard holds the rows of the screenshots before \<open>b\<close> and nothing of \<open>b\<close> or of the
  screenshots after it, and nothing is copied to the clipboard.
\<close>

theorem fail_fast:
  assumes "setup_tesseract w"
    and "load_config w = (Inr config_data, w1)"
    and "config_data ''maps'' = Some maps"
    and "scoreboard_csv w = None \<or> ''scoreboard.csv'' \<notin> set (undeletable w)"
    and "screenshots_dir w = Some entries"
    and "filter is_png entries = pre @ b # post"
    and "\<forall>f\<in>set pre. screenshot_rows (srf f) maps = Inr (rows f)"
    and "find_map_name (srf b) maps = Inr map_name"
    and "find_tables (srf b) = Inl e"
  shows "fst (main srf w) = Failed e
       \<and> store_rows (scoreboard_csv (snd (main srf w))) = concat (map rows pre)
       \<and> clipboard (snd (main srf w)) = clipboard w"
proof -
  have "screenshot_rows (srf b) maps = Inl e"
    by (simp add: screenshot_rows_def assms(8,9))
  from main_fail_fast [OF assms(1-7) this] show ?thesis
    by simp
qed

theorem fail_fast_witness:
  "setup_tesseract example_world
   \<and> filter is_png [''A.png'', ''notes.txt'', ''B.PNG'', ''C.png''] = [''A.png''] @ ''B.PNG'' # [''C.png'']
   \<and> find_tables ((example_srf(''B.PNG'' := no_table_shot)) ''B.PNG'') = Inl TableNotFoundError
   \<and> fst (main (example_srf(''B.PNG'' := no_table_shot)) example_world) = Failed TableNotFoundError
   \<and> store_rows (scoreboard_csv (snd (main (example_srf(''B.PNG'' := no_table_shot)) example_world))) =
       [[''01/01/2024'', ''Ascent'', ''Jett'', ''10'', ''2'', ''5'']]
   \<and> clipboard (snd (main (example_srf(''B.PNG'' := no_table_shot)) example_world)) = None"
proof -
  let ?maps = "JArr [JStr ''Ascent'', JStr ''Bind'']"
  let ?entries = "[''A.png'', ''notes.txt'', ''B.PNG'', ''C.png'']"
  let ?srf = "example_srf(''B.PNG'' := no_table_shot)"
  let ?rows = "\<lambda>f::string. [[''01/01/2024'', ''Ascent'', ''Jett'', ''10'', ''2'', ''5'']]"
  have h3: "[''maps'' \<mapsto> ?maps] ''maps'' = Some ?maps"
    by simp
  have h4: "scoreboard_csv example_world = None \<or> ''scoreboard.csv'' \<notin> set (undeletable example_world)"
    by (simp add: example_world_def)
  have h5: "screenshots_dir example_world = Some ?entries"
    by (simp add: example_world_def)
  have h6: "filter is_png ?entries = [''A.png''] @ ''B.PNG'' # [''C.png'']"
    unfolding example_pngs by simp
  have h7: "\<forall>f\<in>set [''A.png'']. screenshot_rows (?srf f) ?maps = Inr (?rows f)"
    by (simp add: example_rows)
  have h8: "find_map_name (?srf ''B.PNG'') ?maps = Inr ''Ascent''"
    by (simp add: no_table_shot_def shot_of_def)
  have h9: "find_tables (?srf ''B.PNG'') = Inl TableNotFoundError"
    by (simp add: no_table_shot_def shot_of_def)
  have c: "clipboard example_world = None"
    by (simp add: example_world_def)
  have kept: "concat (map ?rows [''A.png'']) = [[''01/01/2024'', ''Ascent'', ''Jett'', ''10'', ''2'', ''5'']]"
    by simp
  note run = fail_fast [OF example_setup example_config h3 h4 h5 h6 h7 h8 h9, unfolded kept c]
  show ?thesis
    using example_setup h6 h9 run by blast
qed

text \<open>
  C8. Index correspondence: for a screenshot \<open>b\<close> on which the calls into \<^verbatim>\<open>srf\<close> return,
  when there are as many agents as rows (each row carrying its team tag) the merge loop
  pairs every row with its agent and raises nothing; when there are fewer agents than
  rows the merge loop raises \<^verbatim>\<open>IndexError\<close>, which is not handled in the loop: the run
  reports it, the screenshots after \<open>b\<close> are not processed and nothing is published.
\<close>

theorem index_correspondence:
  assumes "setup_tesseract w"
    and "load_config w = (Inr config_data, w1)"
    and "config_data ''maps'' = Some maps"
    and "scoreboard_csv w = None \<or> ''scoreboard.csv'' \<notin> set (undeletable w)"
    and "screenshots_dir w = Some entries"
    and "filter is_png entries = pre @ b # post"
    and "\<forall>f\<in>set pre. screenshot_rows (srf f) maps = Inr (rows f)"
    and "find_map_name (srf b) maps = Inr map_name"
    and "find_tables (srf b) = Inr ()"
    and "extract_cell_images_from_table (srf b) = Inr ()"
    and "identify_agents (srf b) = Inr agents"
    and "read_table_rows (srf b) = Inr output"
  shows "(length output = length agents \<and> (\<forall>row\<in>set output. row \<noteq> []) \<longrightarrow>
           (\<exists>merged_output. merge_loop (current_date (srf b)) map_name agents 0 output [] = Inr merged_output
              \<and> length merged_output = length output))
       \<and> (length agents < length output \<longrightarrow>
            merge_loop (current_date (srf b)) map_name agents 0 output [] = Inl IndexError
            \<and> fst (main srf w) = Failed IndexError
            \<and> store_rows (scoreboard_csv (snd (main srf w))) = concat (map rows pre)
            \<and> clipboard (snd (main srf w)) = clipboard w)"
proof (intro conjI impI)
  assume eq: "length output = length agents \<and> (\<forall>row\<in>set output. row \<noteq> [])"
  then have "\<exists>res. merge_loop (current_date (srf b)) map_name agents 0 output [] = Inr res"
    by (intro merge_loop_ok) auto
  then obtain res where res: "merge_loop (current_date (srf b)) map_name agents 0 output [] = Inr res"
    by blast
  from merge_loop_Inr [OF res] eq have "length res = length output"
    by simp
  with res show "\<exists>merged_output. merge_loop (current_date (srf b)) map_name agents 0 output [] = Inr merged_output
              \<and> length merged_output = length output"
    by blast
next
  assume short: "length agents < length output"
  then show "merge_loop (current_date (srf b)) map_name agents 0 output [] = Inl IndexError"
    by (simp add: merge_loop_short)
  have "screenshot_rows (srf b) maps = Inl IndexError"
    by (simp add: screenshot_rows_def assms(8-12) transform_short [OF short])
  note run = main_fail_fast [OF assms(1-7) this]
  show "fst (main srf w) = Failed IndexError" by (rule run(1))
  show "store_rows (scoreboard_csv (snd (main srf w))) = concat (map rows pre)" by (rule run(2))
  show "clipboard (snd (main srf w)) = clipboard w" by (rule run(3))
qed

theorem index_correspondence_witness:
  "length [[''team2'', ''1'', ''1'', ''1''], [''team1'', ''7'', ''6'', ''5'']] = length [''Sage'', ''Omen'']
   \<and> (\<exists>merged_output.
         merge_loop ''01/01/2024'' ''Bind'' [''Sage'', ''Omen''] 0
           [[''team2'', ''1'', ''1'', ''1''], [''team1'', ''7'', ''6'', ''5'']] [] = Inr merged_output
         \<and> length merged_output = length [[''team2'', ''1'', ''1'', ''1''], [''team1'', ''7'', ''6'', ''5'']])
   \<and> length [''Sage''] < length [[''team2'', ''1'', ''1'', ''1''], [''team1'', ''7'', ''6'', ''5'']]
   \<and> fst (main (\<lambda>f. if f = ''B.PNG'' then shot_B\<lparr>identify_agents := Inr [''Sage'']\<rparr> else example_srf f)
          example_world) = Failed IndexError
   \<and> store_rows (scoreboard_csv (snd (main
          (\<lambda>f. if f = ''B.PNG'' then shot_B\<lparr>identify_agents := Inr [''Sage'']\<rparr> else example_srf f)
          example_world))) = [[''01/01/2024'', ''Ascent'', ''Jett'', ''10'', ''2'', ''5'']]
   \<and> clipboard (snd (main
          (\<lambda>f. if f = ''B.PNG'' then shot_B\<lparr>identify_agents := Inr [''Sage'']\<rparr> else example_srf f)
          example_world)) = None"
proof -
  let ?maps = "JArr [JStr ''Ascent'', JStr ''Bind'']"
  let ?entries = "[''A.png'', ''notes.txt'', ''B.PNG'', ''C.png'']"
  let ?out = "[[''team2'', ''1'', ''1'', ''1''], [''team1'', ''7'', ''6'', ''5'']]"
  let ?srf = "\<lambda>f. if f = ''B.PNG'' then shot_B\<lparr>identify_agents := Inr [''Sage'']\<rparr> else example_srf f"
  let ?rows = "\<lambda>f::string. [[''01/01/2024'', ''Ascent'', ''Jett'', ''10'', ''2'', ''5'']]"
  have h3: "[''maps'' \<mapsto> ?maps] ''maps'' = Some ?maps"
    by simp
  have h4: "scoreboard_csv example_world = None \<or> ''scoreboard.csv'' \<notin> set (undeletable example_world)"
    by (simp add: example_world_def)
  have h5: "screenshots_dir example_world = Some ?entries"
    by (simp add: example_world_def)
  have h6: "filter is_png ?entries = [''A.png''] @ ''B.PNG'' # [''C.png'']"
    unfolding example_pngs by simp
  have c: "clipboard example_world = None"
    by (simp add: example_world_def)
  have kept: "concat (map ?rows [''A.png'']) = [[''01/01/2024'', ''Ascent'', ''Jett'', ''10'', ''2'', ''5'']]"
    by simp
  \<comment> \<open>as many agents as rows\<close>
  have a7: "\<forall>f\<in>set [''A.png'']. screenshot_rows (example_srf f) ?maps = Inr (?rows f)"
    by (simp add: example_rows)
  have a8: "find_map_name (example_srf ''B.PNG'') ?maps = Inr ''Bind''"
    and a9: "find_tables (example_srf ''B.PNG'') = Inr ()"
    and a10: "extract_cell_images_from_table (example_srf ''B.PNG'') = Inr ()"
    and a11: "identify_agents (example_srf ''B.PNG'') = Inr [''Sage'', ''Omen'']"
    and a12: "read_table_rows (example_srf ''B.PNG'') = Inr ?out"
    and d: "current_date (example_srf ''B.PNG'') = ''01/01/2024''"
    by (simp_all add: example_srf_def shot_B_def shot_of_def)
  have eq: "length ?out = length [''Sage'', ''Omen''] \<and> (\<forall>row\<in>set ?out. row \<noteq> [])"
    by simp
  note same = index_correspondence [OF example_setup example_config h3 h4 h5 h6 a7 a8 a9 a10 a11 a12,
      unfolded d, THEN conjunct1, THEN mp, OF eq]
  \<comment> \<open>one agent for two rows\<close>
  have b7: "\<forall>f\<in>set [''A.png'']. screenshot_rows (?srf f) ?maps = Inr (?rows f)"
    by (simp add: example_rows)
  have b8: "find_map_name (?srf ''B.PNG'') ?maps = Inr ''Bind''"
    and b9: "find_tables (?srf ''B.PNG'') = Inr ()"
    and b10: "extract_cell_images_from_table (?srf ''B.PNG'') = Inr ()"
    and b11: "identify_agents (?srf ''B.PNG'') = Inr [''Sage'']"
    and b12: "read_table_rows (?srf ''B.PNG'') = Inr ?out"
    by (simp_all add: shot_B_def shot_of_def)
  have short: "length [''Sage''] < length ?out"
    by simp
  note fatal = index_correspondence [OF example_setup example_config h3 h4 h5 h6 b7 b8 b9 b10 b11 b12,
      THEN conjunct2, THEN mp, OF short, unfolded kept c]
  show ?thesis
    using eq same short fatal by blast
qed

subsection \<open>Runs that write nothing\<close>

text \<open>
  C10. A run whose screenshots all take the warning-and-skip branch (none contributes a
  row; this includes a folder without any screenshot) never creates the scoreboard file.
  The run then ends in the \<^verbatim>\<open>except\<close> clause and publishes nothing: with
  \<^verbatim>\<open>FileNotFoundError\<close> from reading the scoreboard back, unless removing the temporary
  headshot file has raised before.
\<close>

theorem all_empty_run_fails:
  assumes "setup_tesseract w"
    and "load_config w = (Inr config_data, w1)"
    and "config_data ''maps'' = Some maps"
    and "scoreboard_csv w = None \<or> ''scoreboard.csv'' \<notin> set (undeletable w)"
    and "screenshots_dir w = Some entries"
    and "\<forall>f\<in>set (filter is_png entries). screenshot_rows (srf f) maps = Inr []"
  shows "scoreboard_csv (snd (main srf w)) = None
       \<and> fst (main srf w) =
           Failed (if temp_headshot w \<and> ''temp_headshot.png'' \<in> set (undeletable w)
                   then PermissionError else FileNotFoundError)
       \<and> clipboard (snd (main srf w)) = clipboard w"
proof -
  have loop: "batch_loop srf maps (filter is_png entries) None = (None, None)"
    using batch_loop_all_ok [OF assms(6), of None] by simp
  have run: "main srf w = finalize (w1\<lparr>scoreboard_csv := None\<rparr>)"
    by (simp add: main_loop [OF assms(1-5)] loop)
  note same = load_config_temp [OF assms(2)] load_config_clipboard [OF assms(2)]
  show ?thesis
    by (simp add: run finalize_cases same)
qed

theorem all_empty_run_fails_witness:
  "setup_tesseract example_world
   \<and> screenshot_rows (shot_of ''01/01/2024'' ''Ascent'' [''Sova''] [[''team2'', ''8'', ''3'', ''4'']])
        (JArr [JStr ''Ascent'', JStr ''Bind'']) = Inr []
   \<and> scoreboard_csv (snd (main (\<lambda>f. shot_of ''01/01/2024'' ''Ascent'' [''Sova''] [[''team2'', ''8'', ''3'', ''4'']])
        example_world)) = None
   \<and> fst (main (\<lambda>f. shot_of ''01/01/2024'' ''Ascent'' [''Sova''] [[''team2'', ''8'', ''3'', ''4'']])
        example_world) = Failed FileNotFoundError
   \<and> clipboard (snd (main (\<lambda>f. shot_of ''01/01/2024'' ''Ascent'' [''Sova''] [[''team2'', ''8'', ''3'', ''4'']])
        example_world)) = None"
proof -
  let ?maps = "JArr [JStr ''Ascent'', JStr ''Bind'']"
  let ?entries = "[''A.png'', ''notes.txt'', ''B.PNG'', ''C.png'']"
  let ?shot = "shot_of ''01/01/2024'' ''Ascent'' [''Sova''] [[''team2'', ''8'', ''3'', ''4'']]"
  have h3: "[''maps'' \<mapsto> ?maps] ''maps'' = Some ?maps"
    by simp
  have h4: "scoreboard_csv example_world = None \<or> ''scoreboard.csv'' \<notin> set (undeletable example_world)"
    by (simp add: example_world_def)
  have h5: "screenshots_dir example_world = Some ?entries"
    by (simp add: example_world_def)
  have empty: "screenshot_rows ?shot ?maps = Inr []"
    by (simp add: screenshot_rows_def shot_of_def transform_def py_index_def)
  then have h6: "\<forall>f\<in>set (filter is_png ?entries). screenshot_rows ((\<lambda>f. ?shot) f) ?maps = Inr []"
    by simp
  have c: "clipboard example_world = None"
    by (simp add: example_world_def)
  have e: "(if temp_headshot example_world \<and> ''temp_headshot.png'' \<in> set (undeletable example_world)
            then PermissionError else FileNotFoundError) = FileNotFoundError"
    by (simp add: example_world_def)
  note run = all_empty_run_fails [OF example_setup example_config h3 h4 h5 h6, unfolded e c]
  show ?thesis
    using example_setup empty run by blast
qed

subsection \<open>Running twice\<close>







lemma main_config_error:
  assumes "setup_tesseract w" and "load_config w = (Inl e, w1)"
  shows "main srf w = (Failed e, w1)"
  by (simp add: main_def assms)










subsection \<open>Configuration\<close>

lemma read_config_invalid:
  assumes "config_ini w = Some cfg" and "maps_missing_or_invalid cfg"
  shows "\<exists>e. read_config w = Inl e"
proof (cases cfg)
  case Malformed
  with assms(1) show ?thesis
    by (simp add: read_config_def config_read_def)
next
  case (Ini defaults sections)
  with assms show ?thesis
    by (auto simp: read_config_def config_read_def maps_missing_or_invalid_def
        split: option.splits ini_value.splits)
qed

lemma read_config_valid:
  assumes "config_ini w = Some cfg" and "\<not> maps_missing_or_invalid cfg"
  shows "\<exists>maps. maps_field cfg = Some (JsonText maps) \<and> read_config w = Inr [''maps'' \<mapsto> maps]"
proof (cases cfg)
  case Malformed
  with assms(2) show ?thesis
    by (simp add: maps_missing_or_invalid_def)
next
  case (Ini defaults sections)
  with assms show ?thesis
    by (auto simp: read_config_def config_read_def maps_missing_or_invalid_def
        split: option.splits ini_value.splits)
qed

lemma create_config_default:
  "create_config w = (Inr [''maps'' \<mapsto> JArr []], w\<lparr>config_ini := Some default_ini\<rparr>)"
  by (simp add: create_config_def Let_def read_config_def config_read_def default_ini_def)

text \<open>
  C7, as stated, fails: the value of \<^verbatim>\<open>maps\<close> is whatever \<^verbatim>\<open>json.loads\<close> decodes and is not
  checked. With \<^verbatim>\<open>maps = 5\<close> in section \<^verbatim>\<open>General\<close> the configuration loads, \<^verbatim>\<open>maps\<close> is
  the number 5, which is no sequence of strings, and the run goes on to completion.
\<close>

theorem maps_not_string_sequence:
  "load_config (example_world\<lparr>config_ini := Some (Ini [] [(''General'', [(''maps'', JsonText (JInt 5))])])\<rparr>) =
     (Inr [''maps'' \<mapsto> JInt 5],
      example_world\<lparr>config_ini := Some (Ini [] [(''General'', [(''maps'', JsonText (JInt 5))])])\<rparr>)
   \<and> \<not> is_string_seq (JInt 5)
   \<and> fst (main example_srf
        (example_world\<lparr>config_ini := Some (Ini [] [(''General'', [(''maps'', JsonText (JInt 5))])])\<rparr>)) =
       Completed"
proof -
  have "fst (main example_srf
        (example_world\<lparr>config_ini := Some (Ini [] [(''General'', [(''maps'', JsonText (JInt 5))])])\<rparr>)) =
       Completed"
    by code_simp
  then show ?thesis
    by (simp add: load_config_def read_config_def config_read_def example_world_def)
qed

text \<open>
  C7, amended. Configuration lifecycle: when \<^verbatim>\<open>config.ini\<close> exists and its \<^verbatim>\<open>maps\<close> field is
  missing or is not valid JSON, the run fails at once and leaves everything as it was (no
  reset of the scoreboard, no screenshot processed, no retry). When the file exists and
  the field is valid JSON, the decoded value is returned as \<^verbatim>\<open>maps\<close>, whatever its shape.
  When there is no file, the default configuration is written and the value returned is
  the empty sequence.
\<close>

theorem config_lifecycle:
  "(setup_tesseract w \<and> config_ini w = Some cfg \<and> maps_missing_or_invalid cfg \<longrightarrow>
      (\<exists>e. main srf w = (Failed e, w)))
   \<and> (config_ini w = Some cfg \<and> \<not> maps_missing_or_invalid cfg \<longrightarrow>
        (\<exists>maps. maps_field cfg = Some (JsonText maps) \<and>
           load_config w = (Inr [''maps'' \<mapsto> maps], w)))
   \<and> (config_ini w = None \<longrightarrow>
        load_config w = (Inr [''maps'' \<mapsto> JArr []], w\<lparr>config_ini := Some default_ini\<rparr>)
        \<and> maps_field default_ini = Some (JsonText (JArr []))
        \<and> is_string_seq (JArr []))"
proof (intro conjI impI)
  assume a: "setup_tesseract w \<and> config_ini w = Some cfg \<and> maps_missing_or_invalid cfg"
  then obtain e where "read_config w = Inl e"
    using read_config_invalid by blast
  with a have "load_config w = (Inl e, w)"
    by (simp add: load_config_def)
  with a have "main srf w = (Failed e, w)"
    by (simp add: main_config_error)
  then show "\<exists>e. main srf w = (Failed e, w)" ..
next
  assume a: "config_ini w = Some cfg \<and> \<not> maps_missing_or_invalid cfg"
  then obtain maps where "maps_field cfg = Some (JsonText maps)"
    and "read_config w = Inr [''maps'' \<mapsto> maps]"
    using read_config_valid by blast
  with a show "\<exists>maps. maps_field cfg = Some (JsonText maps) \<and>
           load_config w = (Inr [''maps'' \<mapsto> maps], w)"
    by (auto simp: load_config_def)
next
  assume "config_ini w = None"
  then show "load_config w = (Inr [''maps'' \<mapsto> JArr []], w\<lparr>config_ini := Some default_ini\<rparr>)"
    by (simp add: load_config_def create_config_default)
next
  show "maps_field default_ini = Some (JsonText (JArr []))"
    by (simp add: default_ini_def)
next
  show "is_string_seq (JArr [])"
    by simp
qed

theorem config_lifecycle_witness:
  "maps_missing_or_invalid (Ini [] [(''General'', [(''team'', NotJson)])])
   \<and> (\<exists>e. main example_srf (example_world\<lparr>config_ini := Some (Ini [] [(''General'', [(''team'', NotJson)])])\<rparr>) =
         (Failed e, example_world\<lparr>config_ini := Some (Ini [] [(''General'', [(''team'', NotJson)])])\<rparr>))
   \<and> maps_missing_or_invalid (Ini [] [(''General'', [(''maps'', NotJson)])])
   \<and> (\<exists>e. main example_srf (example_world\<lparr>config_ini := Some (Ini [] [(''General'', [(''maps'', NotJson)])])\<rparr>) =
         (Failed e, example_world\<lparr>config_ini := Some (Ini [] [(''General'', [(''maps'', NotJson)])])\<rparr>))
   \<and> (\<exists>maps. maps_field (Ini [] [(''General'', [(''maps'', JsonText (JArr [JStr ''Ascent'', JStr ''Bind'']))])]) =
           Some (JsonText maps)
         \<and> load_config example_world = (Inr [''maps'' \<mapsto> maps], example_world))
   \<and> config_ini (example_world\<lparr>config_ini := None\<rparr>) = None
   \<and> load_config (example_world\<lparr>config_ini := None\<rparr>) =
       (Inr [''maps'' \<mapsto> JArr []], example_world\<lparr>config_ini := Some default_ini\<rparr>)"
proof -
  let ?no_maps = "Ini [] [(''General'', [(''team'', NotJson)])]"
  let ?bad_maps = "Ini [] [(''General'', [(''maps'', NotJson)])]"
  let ?good = "Ini [] [(''General'', [(''maps'', JsonText (JArr [JStr ''Ascent'', JStr ''Bind'']))])]"
  have m1: "maps_missing_or_invalid ?no_maps" and m2: "maps_missing_or_invalid ?bad_maps"
    and m3: "\<not> maps_missing_or_invalid ?good"
    by (simp_all add: maps_missing_or_invalid_def)
  have t: "setup_tesseract (example_world\<lparr>config_ini := c\<rparr>)" for c
    using example_setup by (simp add: setup_tesseract_def)
  have a1: "setup_tesseract (example_world\<lparr>config_ini := Some ?no_maps\<rparr>)
      \<and> config_ini (example_world\<lparr>config_ini := Some ?no_maps\<rparr>) = Some ?no_maps
      \<and> maps_missing_or_invalid ?no_maps"
    using t m1 by simp
  have a2: "setup_tesseract (example_world\<lparr>config_ini := Some ?bad_maps\<rparr>)
      \<and> config_ini (example_world\<lparr>config_ini := Some ?bad_maps\<rparr>) = Some ?bad_maps
      \<and> maps_missing_or_invalid ?bad_maps"
    using t m2 by simp
  have a3: "config_ini example_world = Some ?good \<and> \<not> maps_missing_or_invalid ?good"
    using m3 by (simp add: example_world_def)
  have a4: "config_ini (example_world\<lparr>config_ini := None\<rparr>) = None"
    by simp
  have upd: "example_world\<lparr>config_ini := None, config_ini := Some default_ini\<rparr> =
      example_world\<lparr>config_ini := Some default_ini\<rparr>"
    by simp
  note r1 = config_lifecycle [THEN conjunct1, THEN mp, OF a1, of example_srf]
  note r2 = config_lifecycle [THEN conjunct1, THEN mp, OF a2, of example_srf]
  note r3 = config_lifecycle [THEN conjunct2, THEN conjunct1, THEN mp, OF a3]
  note r4 = config_lifecycle [THEN conjunct2, THEN conjunct2, THEN mp, OF a4, THEN conjunct1, unfolded upd]
  show ?thesis
    using m1 m2 r1 r2 r3 a4 r4 by blast
qed

subsection \<open>Missing and empty input folder\<close>

text \<open>
  C5. No-input termination holds when the folder is missing, and fails when the folder
  exists without a screenshot in it: the loop body never runs, the scoreboard file removed
  at the start is never written, and reading it back raises, so the run ends in the
  \<^verbatim>\<open>except\<close> clause although the message of the early return names this very case
  ("No screenshots folder found or no PNG files to process").
\<close>

theorem empty_folder_reports_error:
  "fst (main example_srf (example_world\<lparr>screenshots_dir := Some [''notes.txt'']\<rparr>)) = Failed FileNotFoundError
   \<and> fst (main example_srf (example_world\<lparr>screenshots_dir := Some []\<rparr>)) = Failed FileNotFoundError
   \<and> fst (main example_srf (example_world\<lparr>screenshots_dir := None\<rparr>)) = NoInput"
  by code_simp

subsection \<open>Finalization\<close>

text \<open>
  C9, as stated, fails: \<^verbatim>\<open>os.remove\<close> on the temporary headshot file is called inside the
  \<^verbatim>\<open>try\<close> block without a handler of its own. When it raises, the run reports the failure;
  the scoreboard, complete by then, is neither read back nor published.
\<close>

theorem cleanup_failure_escalates:
  "temp_headshot (example_world\<lparr>undeletable := [''temp_headshot.png'']\<rparr>)
   \<and> fst (main example_srf (example_world\<lparr>undeletable := [''temp_headshot.png'']\<rparr>)) = Failed PermissionError
   \<and> scoreboard_csv (snd (main example_srf (example_world\<lparr>undeletable := [''temp_headshot.png'']\<rparr>))) =
       Some [[''01/01/2024'', ''Ascent'', ''Jett'', ''10'', ''2'', ''5''],
             [''01/01/2024'', ''Bind'', ''Omen'', ''7'', ''6'', ''5''],
             [''02/01/2024'', ''Ascent'', ''Reyna'', ''3'', ''2'', ''1''],
             [''02/01/2024'', ''Ascent'', ''Brim'', ''4'', ''4'', ''4'']]
   \<and> clipboard (snd (main example_srf (example_world\<lparr>undeletable := [''temp_headshot.png'']\<rparr>))) = None"
  by code_simp

text \<open>
  C9, amended. Finalizer cleanup: after a loop that has written rows, the cleanup is
  skipped without an error when the temporary headshot file does not exist, and when the
  file exists and is removed the run goes on: in both cases the run reads the whole
  scoreboard, publishes it and reports success. When removing the file raises, the
  exception reaches the \<^verbatim>\<open>except\<close> clause: the run reports failure and publishes nothing.
\<close>

theorem finalizer_cleanup:
  assumes "setup_tesseract w"
    and "load_config w = (Inr config_data, w1)"
    and "config_data ''maps'' = Some maps"
    and "scoreboard_csv w = None \<or> ''scoreboard.csv'' \<notin> set (undeletable w)"
    and "screenshots_dir w = Some entries"
    and "\<forall>f\<in>set (filter is_png entries). screenshot_rows (srf f) maps = Inr (rows f)"
    and "concat (map rows (filter is_png entries)) \<noteq> []"
  shows "(temp_headshot w \<and> ''temp_headshot.png'' \<in> set (undeletable w) \<longrightarrow>
           fst (main srf w) = Failed PermissionError
           \<and> clipboard (snd (main srf w)) = clipboard w
           \<and> temp_headshot (snd (main srf w)))
       \<and> (\<not> (temp_headshot w \<and> ''temp_headshot.png'' \<in> set (undeletable w)) \<longrightarrow>
           fst (main srf w) = Completed
           \<and> clipboard (snd (main srf w)) = Some (concat (map rows (filter is_png entries)))
           \<and> scoreboard_csv (snd (main srf w)) = Some (concat (map rows (filter is_png entries)))
           \<and> \<not> temp_headshot (snd (main srf w)))"
proof -
  define all where "all = concat (map rows (filter is_png entries))"
  have ne: "all \<noteq> []"
    using assms(7) by (simp add: all_def)
  have loop: "batch_loop srf maps (filter is_png entries) None = (None, Some all)"
    using batch_loop_all_ok [OF assms(6), of None] ne
    by (simp add: all_def [symmetric] write_csv_def)
  have run: "main srf w = finalize (w1\<lparr>scoreboard_csv := Some all\<rparr>)"
    by (simp add: main_loop [OF assms(1-5)] loop)
  note same = load_config_temp [OF assms(2)] load_config_clipboard [OF assms(2)]
  show ?thesis
    unfolding all_def [symmetric]
    by (simp add: run finalize_cases same)
qed

theorem finalizer_cleanup_witness:
  "temp_headshot example_world
   \<and> ''temp_headshot.png'' \<notin> set (undeletable example_world)
   \<and> fst (main example_srf example_world) = Completed
   \<and> clipboard (snd (main example_srf example_world)) =
       Some [[''01/01/2024'', ''Ascent'', ''Jett'', ''10'', ''2'', ''5''],
             [''01/01/2024'', ''Bind'', ''Omen'', ''7'', ''6'', ''5''],
             [''02/01/2024'', ''Ascent'', ''Reyna'', ''3'', ''2'', ''1''],
             [''02/01/2024'', ''Ascent'', ''Brim'', ''4'', ''4'', ''4'']]
   \<and> \<not> temp_headshot (snd (main example_srf example_world))
   \<and> ''temp_headshot.png'' \<in> set (undeletable (example_world\<lparr>undeletable := [''temp_headshot.png'']\<rparr>))
   \<and> fst (main example_srf (example_world\<lparr>undeletable := [''temp_headshot.png'']\<rparr>)) = Failed PermissionError
   \<and> clipboard (snd (main example_srf (example_world\<lparr>undeletable := [''temp_headshot.png'']\<rparr>))) = None
   \<and> temp_headshot (snd (main example_srf (example_world\<lparr>undeletable := [''temp_headshot.png'']\<rparr>)))"
proof -
  let ?maps = "JArr [JStr ''Ascent'', JStr ''Bind'']"
  let ?entries = "[''A.png'', ''notes.txt'', ''B.PNG'', ''C.png'']"
  let ?rows = "\<lambda>f. if f = ''A.png'' then [[''01/01/2024'', ''Ascent'', ''Jett'', ''10'', ''2'', ''5'']]
       else if f = ''B.PNG'' then [[''01/01/2024'', ''Bind'', ''Omen'', ''7'', ''6'', ''5'']]
       else [[''02/01/2024'', ''Ascent'', ''Reyna'', ''3'', ''2'', ''1''],
             [''02/01/2024'', ''Ascent'', ''Brim'', ''4'', ''4'', ''4'']]"
  let ?locked = "example_world\<lparr>undeletable := [''temp_headshot.png'']\<rparr>"
  have h3: "[''maps'' \<mapsto> ?maps] ''maps'' = Some ?maps"
    by simp
  have h6: "\<forall>f\<in>set (filter is_png ?entries). screenshot_rows (example_srf f) ?maps = Inr (?rows f)"
    unfolding example_pngs by (simp add: example_rows)
  have all: "concat (map ?rows (filter is_png ?entries)) =
       [[''01/01/2024'', ''Ascent'', ''Jett'', ''10'', ''2'', ''5''],
        [''01/01/2024'', ''Bind'', ''Omen'', ''7'', ''6'', ''5''],
        [''02/01/2024'', ''Ascent'', ''Reyna'', ''3'', ''2'', ''1''],
        [''02/01/2024'', ''Ascent'', ''Brim'', ''4'', ''4'', ''4'']]"
    unfolding example_pngs by simp
  then have h7: "concat (map ?rows (filter is_png ?entries)) \<noteq> []"
    by simp
  \<comment> \<open>the temporary file can be removed\<close>
  have h4: "scoreboard_csv example_world = None \<or> ''scoreboard.csv'' \<notin> set (undeletable example_world)"
    by (simp add: example_world_def)
  have h5: "screenshots_dir example_world = Some ?entries"
    by (simp add: example_world_def)
  have t: "temp_headshot example_world" and c: "clipboard example_world = None"
    and free: "''temp_headshot.png'' \<notin> set (undeletable example_world)"
    by (simp_all add: example_world_def)
  then have can: "\<not> (temp_headshot example_world \<and> ''temp_headshot.png'' \<in> set (undeletable example_world))"
    by simp
  note ok = finalizer_cleanup [OF example_setup example_config h3 h4 h5 h6 h7,
      THEN conjunct2, THEN mp, OF can, unfolded all]
  \<comment> \<open>removing the temporary file raises\<close>
  have l1: "setup_tesseract ?locked"
    using example_setup by (simp add: setup_tesseract_def)
  have l2: "load_config ?locked = (Inr [''maps'' \<mapsto> ?maps], ?locked)"
    by (simp add: load_config_def example_world_def read_config_def config_read_def)
  have l4: "scoreboard_csv ?locked = None \<or> ''scoreboard.csv'' \<notin> set (undeletable ?locked)"
    by simp
  have l5: "screenshots_dir ?locked = Some ?entries"
    by (simp add: example_world_def)
  have held: "''temp_headshot.png'' \<in> set (undeletable ?locked)"
    by simp
  have cannot: "temp_headshot ?locked \<and> ''temp_headshot.png'' \<in> set (undeletable ?locked)"
    using t by simp
  have c': "clipboard ?locked = None"
    using c by simp
  note bad = finalizer_cleanup [OF l1 l2 h3 l4 l5 h6 h7, THEN conjunct1, THEN mp, OF cannot, unfolded c']
  show ?thesis
    using t free ok held bad by blast
qed

end
